theory Spec2Isabelle
  imports Main "HOL-Library.Word"
begin

section \<open>The gatewayinfo middleware: data\<close>

text \<open>
  The package \<^verbatim>\<open>middleware/gatewayinfo\<close> caches the public record of every connected
  gateway and copies parts of it into uplink and status messages that lack them.

  A Go \<^verbatim>\<open>error\<close> is an interface value that may be \<^verbatim>\<open>nil\<close>: an \<open>error option\<close>, the
  error itself being an opaque message. A \<^verbatim>\<open>time.Time\<close> is a number of nanoseconds, a
  \<^verbatim>\<open>time.Duration\<close> a signed 64-bit number of nanoseconds. Floating-point numbers are
  kept as their IEEE bit patterns; the conversions \<^verbatim>\<open>float32(...)\<close> and \<^verbatim>\<open>int32(...)\<close>
  are parameters of the hooks that use them.
\<close>

type_synonym error = string
type_synonym time = int
type_synonym duration = int
type_synonym float64 = "64 word"
type_synonym float32 = "32 word"
type_synonym int32 = "32 word"

text \<open>The fields of \<^verbatim>\<open>account.Gateway\<close> that this package reads. A nil pointer is \<open>None\<close>.\<close>

record Location =
  Latitude :: float64
  Longitude :: float64
  Altitude :: "64 word"

record GatewayAttributes =
  Brand :: "string option"
  Model :: "string option"
  Description :: "string option"

record Gateway =
  AntennaLocation :: "Location option"
  FrequencyPlan :: string
  Attributes :: GatewayAttributes

text \<open>The zero value of \<^verbatim>\<open>account.Gateway\<close>: what \<^verbatim>\<open>var gateway account.Gateway\<close> holds.\<close>

definition zeroGateway :: Gateway where
  "zeroGateway =
     \<lparr>AntennaLocation = None, FrequencyPlan = [],
      Attributes = \<lparr>Brand = None, Model = None, Description = None\<rparr>\<rparr>"

text \<open>\<^verbatim>\<open>type info struct\<close>: one cache entry.\<close>

record info =
  lastUpdated :: time
  err :: "error option"
  gateway :: Gateway

text \<open>
  \<^verbatim>\<open>available chan struct{}\<close>: a channel of empty values is the number \<open>qcount\<close> of
  values in its buffer, the size \<open>dataqsiz\<close> of the buffer, and the number \<open>recvq\<close> of
  goroutines parked in a receive (the names are those of the Go runtime's \<^verbatim>\<open>hchan\<close>).
\<close>

record chan =
  qcount :: nat
  dataqsiz :: nat
  recvq :: nat

text \<open>
  \<^verbatim>\<open>type Public struct\<close>. The map \<^verbatim>\<open>info map[string]*info\<close> holds pointers: \<open>info\<close> maps
  an identifier to an address, \<open>heap\<close> gives the entry at an address, and \<open>nxt\<close> is the
  next address that \<^verbatim>\<open>&info{...}\<close> allocates. The mutex \<^verbatim>\<open>mu\<close> makes every store operation
  atomic: each is one function of the state. The logger is the list of entries written.
\<close>

type_synonym addr = nat

datatype logline = Warn string error string | Debug string string

record Public =
  expire :: duration
  info :: "string \<rightharpoonup> addr"
  heap :: "addr \<Rightarrow> info"
  nxt :: addr
  available :: chan
  logged :: "logline list"

text \<open>A goroutine started by \<^verbatim>\<open>go\<close>: the call it will run.\<close>

datatype task = Fetch string | ConnectFetch string | Unset string

text \<open>The entry that the store holds for an identifier, read through the pointer.\<close>

definition entry :: "Public \<Rightarrow> string \<Rightarrow> info option" where
  "entry p gatewayID = map_option (heap p) (info p gatewayID)"

section \<open>The entry store\<close>

text \<open>\<^verbatim>\<open>&info{...}\<close> stored under \<^verbatim>\<open>p.info[gatewayID]\<close>: a fresh cell.\<close>

definition alloc :: "Public \<Rightarrow> string \<Rightarrow> info \<Rightarrow> Public" where
  "alloc p gatewayID i =
     p\<lparr>info := (info p)(gatewayID \<mapsto> nxt p),
       heap := (heap p)(nxt p := i),
       nxt := Suc (nxt p)\<rparr>"

text \<open>\<^verbatim>\<open>func (p *Public) setErr(gatewayID string, err error)\<close>; \<open>now\<close> is \<^verbatim>\<open>time.Now()\<close>.\<close>

definition setErr :: "Public \<Rightarrow> string \<Rightarrow> error option \<Rightarrow> time \<Rightarrow> Public" where
  "setErr p gatewayID e now =
     (case info p gatewayID of
        Some gtw \<Rightarrow>
          p\<lparr>heap := (heap p)(gtw := (heap p gtw)\<lparr>lastUpdated := now, err := e\<rparr>)\<rparr>
      | None \<Rightarrow>
          alloc p gatewayID \<lparr>lastUpdated = now, err = e, gateway = zeroGateway\<rparr>)"

text \<open>\<^verbatim>\<open>func (p *Public) set(gatewayID string, gateway account.Gateway)\<close>.\<close>

definition set_info :: "Public \<Rightarrow> string \<Rightarrow> Gateway \<Rightarrow> time \<Rightarrow> Public" where
  "set_info p gatewayID g now =
     alloc p gatewayID \<lparr>lastUpdated = now, err = None, gateway = g\<rparr>"

text \<open>
  \<^verbatim>\<open>time.Since(t)\<close> is \<^verbatim>\<open>time.Now().Sub(t)\<close>, and \<^verbatim>\<open>Sub\<close> saturates at the bounds of
  \<^verbatim>\<open>time.Duration\<close>.
\<close>

definition maxDuration :: duration where
  "maxDuration = 2 ^ 63 - 1"

definition minDuration :: duration where
  "minDuration = - (2 ^ 63)"

definition Sub :: "time \<Rightarrow> time \<Rightarrow> duration" where
  "Sub t u =
     (let d = t - u in
      if d > maxDuration then maxDuration
      else if d < minDuration then minDuration
      else d)"

definition Since :: "time \<Rightarrow> time \<Rightarrow> duration" where
  "Since now t = Sub now t"

text \<open>
  \<^verbatim>\<open>func (p *Public) get(gatewayID string) (gateway account.Gateway, err error)\<close>.
  The clock is read twice: \<open>now\<close> by \<^verbatim>\<open>time.Since\<close>, then \<open>now'\<close> by \<^verbatim>\<open>time.Now()\<close>. The
  result is the returned pair, the goroutines started, and the state.
\<close>

definition get :: "Public \<Rightarrow> string \<Rightarrow> time \<Rightarrow> time \<Rightarrow> (Gateway \<times> error option) \<times> task list \<times> Public" where
  "get p gatewayID now now' =
     (case info p gatewayID of
        None \<Rightarrow> ((zeroGateway, None), [], p)
      | Some a \<Rightarrow>
          if expire p \<noteq> 0 \<and> Since now (lastUpdated (heap p a)) > expire p
          then
            (let p' = p\<lparr>heap := (heap p)(a := (heap p a)\<lparr>lastUpdated := now'\<rparr>)\<rparr>
             in ((gateway (heap p' a), err (heap p' a)), [Fetch gatewayID], p'))
          else ((gateway (heap p a), err (heap p a)), [], p))"

text \<open>\<^verbatim>\<open>func (p *Public) unset(gatewayID string)\<close>.\<close>

definition unset :: "Public \<Rightarrow> string \<Rightarrow> Public" where
  "unset p gatewayID = p\<lparr>info := (info p)(gatewayID := None)\<rparr>"

section \<open>The rate limiter\<close>

text \<open>
  The operations of Go on a channel of empty values. \<^verbatim>\<open>make(chan struct{}, n)\<close> panics
  when \<open>n\<close> is negative.
\<close>

datatype fault = Panic | Deadlock

definition make_chan :: "int \<Rightarrow> fault + chan" where
  "make_chan n =
     (if n < 0 then Inl Panic
      else Inr \<lparr>qcount = 0, dataqsiz = nat n, recvq = 0\<rparr>)"

text \<open>
  \<^verbatim>\<open>c <- struct{}{}\<close>: a parked receiver takes the value at once; otherwise the value
  goes into the buffer when there is room. \<open>None\<close> when neither holds: a plain send
  would block, a send in a \<^verbatim>\<open>select\<close> with a \<^verbatim>\<open>default\<close> is given up.
\<close>

definition chan_send :: "chan \<Rightarrow> chan option" where
  "chan_send c =
     (if recvq c > 0 then Some (c\<lparr>recvq := recvq c - 1\<rparr>)
      else if qcount c < dataqsiz c then Some (c\<lparr>qcount := Suc (qcount c)\<rparr>)
      else None)"

text \<open>
  \<^verbatim>\<open>select { case p.available <- struct{}{}: default: }\<close>, the body of the loop over
  \<^verbatim>\<open>time.Tick(RequestInterval)\<close>.
\<close>

definition chan_trysend :: "chan \<Rightarrow> chan" where
  "chan_trysend c = (case chan_send c of Some c' \<Rightarrow> c' | None \<Rightarrow> c)"

text \<open>
  \<^verbatim>\<open><-c\<close>: \<open>True\<close> when a value is taken from the buffer and the goroutine goes on,
  \<open>False\<close> when the buffer is empty and the goroutine parks in the receive queue.
\<close>

definition chan_recv :: "chan \<Rightarrow> bool \<times> chan" where
  "chan_recv c =
     (if qcount c > 0 then (True, c\<lparr>qcount := qcount c - 1\<rparr>)
      else (False, c\<lparr>recvq := Suc (recvq c)\<rparr>))"

text \<open>\<^verbatim>\<open>for i := 0; i < RequestBurst; i++ { p.available <- struct{}{} }\<close>, \<open>n\<close> rounds left.\<close>

fun fill :: "nat \<Rightarrow> chan \<Rightarrow> fault + chan" where
  "fill 0 c = Inr c"
| "fill (Suc n) c =
     (case chan_send c of None \<Rightarrow> Inl Deadlock | Some c' \<Rightarrow> fill n c')"

text \<open>
  \<^verbatim>\<open>func NewPublic(accountServer string) *Public\<close>, with the package variable
  \<^verbatim>\<open>RequestBurst\<close> as its argument. The account client is not part of the state: the
  answer of each lookup is an argument of the fetch that makes it.
\<close>

definition NewPublic :: "int \<Rightarrow> fault + Public" where
  "NewPublic RequestBurst =
     (case make_chan RequestBurst of
        Inl f \<Rightarrow> Inl f
      | Inr c \<Rightarrow>
          (case fill (nat RequestBurst) c of
             Inl f \<Rightarrow> Inl f
           | Inr c' \<Rightarrow>
               Inr \<lparr>expire = 0, info = Map.empty,
                    heap = (\<lambda>_. \<lparr>lastUpdated = 0, err = None, gateway = zeroGateway\<rparr>),
                    nxt = 0, available = c', logged = []\<rparr>))"

text \<open>One firing of the ticker in the goroutine that \<^verbatim>\<open>NewPublic\<close> starts.\<close>

definition tick :: "Public \<Rightarrow> Public" where
  "tick p = p\<lparr>available := chan_trysend (available p)\<rparr>"

text \<open>\<^verbatim>\<open>func (p *Public) WithExpire(duration time.Duration) *Public\<close>.\<close>

definition WithExpire :: "Public \<Rightarrow> duration \<Rightarrow> Public" where
  "WithExpire p d = p\<lparr>expire := d\<rparr>"

section \<open>The fetch engine\<close>

text \<open>
  \<^verbatim>\<open>func (p *Public) fetch(gatewayID string) error\<close> in its two atomic parts. The first
  is the receive \<^verbatim>\<open><-p.available\<close>. The second starts when the receive is over: the
  lookup \<^verbatim>\<open>p.account.FindGateway(gatewayID)\<close> answers \<open>(g, e)\<close>, and the store is written
  at time \<open>now\<close>. Other goroutines run between the two.
\<close>

definition fetch_acquire :: "Public \<Rightarrow> bool \<times> Public" where
  "fetch_acquire p =
     (case chan_recv (available p) of (ok, c) \<Rightarrow> (ok, p\<lparr>available := c\<rparr>))"

definition fetch_complete :: "Public \<Rightarrow> string \<Rightarrow> Gateway \<times> error option \<Rightarrow> time \<Rightarrow> error option \<times> Public" where
  "fetch_complete p gatewayID r now =
     (case r of
        (g, Some e) \<Rightarrow> (Some e, setErr p gatewayID (Some e) now)
      | (g, None) \<Rightarrow> (None, set_info p gatewayID g now))"


section \<open>The hooks\<close>

text \<open>
  The messages of the pipeline, with the fields the hooks touch. The hooks dereference
  \<^verbatim>\<open>msg.Message\<close> and the gateway metadata unguarded, so both are present here. A trace
  is the list of its events; \<^verbatim>\<open>WithEvent\<close> adds one, with its key-value pairs.
\<close>

type_synonym trace = "(string \<times> (string \<times> error) list) list"

definition WithEvent :: "trace \<Rightarrow> string \<Rightarrow> (string \<times> error) list \<Rightarrow> trace" where
  "WithEvent tr name kvs = tr @ [(name, kvs)]"

record GPSMetadata =
  Latitude :: float32
  Longitude :: float32
  Altitude :: int32

record RxMetadata =
  Gps :: "GPSMetadata option"

record router_UplinkMessage =
  Trace :: trace
  GatewayMetadata :: RxMetadata

record UplinkMessage =
  GatewayID :: string
  Message :: router_UplinkMessage

record Status =
  Gps :: "GPSMetadata option"
  FrequencyPlan :: string
  Platform :: string
  Description :: string

record StatusMessage =
  GatewayID :: string
  Message :: Status

record ConnectMessage =
  GatewayID :: string

record DisconnectMessage =
  GatewayID :: string

text \<open>\<^verbatim>\<open>strings.Join(elems, sep)\<close>.\<close>

fun Join :: "string list \<Rightarrow> string \<Rightarrow> string" where
  "Join [] sep = []"
| "Join [x] sep = x"
| "Join (x # y # ys) sep = x @ sep @ Join (y # ys) sep"

text \<open>
  \<^verbatim>\<open>&gateway.GPSMetadata{...}\<close> built from an antenna location; \<open>f32\<close> is \<^verbatim>\<open>float32(...)\<close>
  and \<open>i32\<close> is \<^verbatim>\<open>int32(...)\<close>.
\<close>

definition gpsOf :: "(float64 \<Rightarrow> float32) \<Rightarrow> (64 word \<Rightarrow> int32) \<Rightarrow> Location \<Rightarrow> GPSMetadata" where
  "gpsOf f32 i32 loc =
     \<lparr>GPSMetadata.Latitude = f32 (Location.Latitude loc),
      GPSMetadata.Longitude = f32 (Location.Longitude loc),
      GPSMetadata.Altitude = i32 (Location.Altitude loc)\<rparr>"


definition connect_logged :: "Public \<Rightarrow> string \<Rightarrow> error option \<Rightarrow> Public" where
  "connect_logged p gatewayID e =
     (case e of
        Some x \<Rightarrow>
          p\<lparr>logged := logged p @ [Warn gatewayID x ''Could not get public Gateway information'']\<rparr>
      | None \<Rightarrow>
          p\<lparr>logged := logged p @ [Debug gatewayID ''Got public Gateway information'']\<rparr>)"


text \<open>
  \<^verbatim>\<open>func (p *Public) HandleUplink(ctx, msg *types.UplinkMessage) error\<close>: the returned
  error, the message as the hook leaves it, the goroutines started and the state.
\<close>

definition HandleUplink :: "(float64 \<Rightarrow> float32) \<Rightarrow> (64 word \<Rightarrow> int32) \<Rightarrow> Public \<Rightarrow> UplinkMessage \<Rightarrow> time \<Rightarrow> time
    \<Rightarrow> error option \<times> UplinkMessage \<times> task list \<times> Public" where
  "HandleUplink f32 i32 p msg now now' =
     (case get p (UplinkMessage.GatewayID msg) now now' of
        ((gtw, e), spawned, p') \<Rightarrow>
          (let m0 = UplinkMessage.Message msg;
               m1 = (case e of
                       Some x \<Rightarrow>
                         m0\<lparr>Trace := WithEvent (Trace m0) ''unable to get gateway info'' [(''error'', x)]\<rparr>
                     | None \<Rightarrow> m0);
               meta = GatewayMetadata m1;
               m2 = (case (RxMetadata.Gps meta, AntennaLocation gtw) of
                       (None, Some loc) \<Rightarrow>
                         m1\<lparr>Trace := WithEvent (Trace m1) ''injecting gateway location'' [],
                            GatewayMetadata := meta\<lparr>RxMetadata.Gps := Some (gpsOf f32 i32 loc)\<rparr>\<rparr>
                     | _ \<Rightarrow> m1)
           in (None, msg\<lparr>UplinkMessage.Message := m2\<rparr>, spawned, p')))"

text \<open>\<^verbatim>\<open>func (p *Public) HandleStatus(ctx, msg *types.StatusMessage) error\<close>, likewise.\<close>

definition HandleStatus :: "(float64 \<Rightarrow> float32) \<Rightarrow> (64 word \<Rightarrow> int32) \<Rightarrow> Public \<Rightarrow> StatusMessage \<Rightarrow> time \<Rightarrow> time
    \<Rightarrow> error option \<times> StatusMessage \<times> task list \<times> Public" where
  "HandleStatus f32 i32 p msg now now' =
     (case get p (StatusMessage.GatewayID msg) now now' of
        ((gtw, _), spawned, p') \<Rightarrow>
          (let m0 = StatusMessage.Message msg;
               m1 = (case (Status.Gps m0, AntennaLocation gtw) of
                       (None, Some loc) \<Rightarrow> m0\<lparr>Status.Gps := Some (gpsOf f32 i32 loc)\<rparr>
                     | _ \<Rightarrow> m0);
               m2 = (if Status.FrequencyPlan m1 = [] \<and> Gateway.FrequencyPlan gtw \<noteq> []
                     then m1\<lparr>Status.FrequencyPlan := Gateway.FrequencyPlan gtw\<rparr>
                     else m1);
               m3 = (if Platform m2 = []
                     then
                       (let platform0 = [];
                            platform1 = (case Brand (Attributes gtw) of
                                           Some b \<Rightarrow> platform0 @ [b]
                                         | None \<Rightarrow> platform0);
                            platform2 = (case Model (Attributes gtw) of
                                           Some m \<Rightarrow> platform1 @ [m]
                                         | None \<Rightarrow> platform1)
                        in m2\<lparr>Platform := Join platform2 '' ''\<rparr>)
                     else m2);
               m4 = (case (Status.Description m3 = [], GatewayAttributes.Description (Attributes gtw)) of
                       (True, Some d) \<Rightarrow> m3\<lparr>Status.Description := d\<rparr>
                     | _ \<Rightarrow> m3)
           in (None, msg\<lparr>StatusMessage.Message := m4\<rparr>, spawned, p')))"

section \<open>Runs and sample data\<close>


text \<open>A gateway record, and the state that \<open>NewPublic\<close> returns for a burst of two.\<close>

definition sampleGateway :: Gateway where
  "sampleGateway =
     \<lparr>AntennaLocation = Some \<lparr>Location.Latitude = 1, Location.Longitude = 2, Location.Altitude = 3\<rparr>,
      FrequencyPlan = ''EU_863_870'',
      Attributes = \<lparr>Brand = Some ''Kerlink'', Model = Some ''iBTS'', Description = None\<rparr>\<rparr>"

definition samplePublic :: Public where
  "samplePublic =
     \<lparr>expire = 0, info = Map.empty,
      heap = (\<lambda>_. \<lparr>lastUpdated = 0, err = None, gateway = zeroGateway\<rparr>),
      nxt = 0, available = \<lparr>qcount = 2, dataqsiz = 2, recvq = 0\<rparr>, logged = []\<rparr>"

text \<open>
  The states of a running middleware: what \<open>NewPublic\<close> returns, and what any step of any
  goroutine makes of a state. The store is written by the two ends of \<open>fetch\<close>, by \<open>get\<close>
  and by \<open>unset\<close>; the channel by the ticker and by the receive in \<open>fetch\<close>.
\<close>

inductive reachable :: "int \<Rightarrow> Public \<Rightarrow> bool" for RequestBurst :: int where
  reach_new: "NewPublic RequestBurst = Inr p \<Longrightarrow> reachable RequestBurst p"
| reach_expire: "reachable RequestBurst p \<Longrightarrow> reachable RequestBurst (WithExpire p d)"
| reach_tick: "reachable RequestBurst p \<Longrightarrow> reachable RequestBurst (tick p)"
| reach_acquire: "reachable RequestBurst p \<Longrightarrow> reachable RequestBurst (snd (fetch_acquire p))"
| reach_complete: "reachable RequestBurst p \<Longrightarrow> reachable RequestBurst (snd (fetch_complete p gatewayID r now))"
| reach_logged: "reachable RequestBurst p \<Longrightarrow> reachable RequestBurst (connect_logged p gatewayID e)"
| reach_get: "reachable RequestBurst p \<Longrightarrow> reachable RequestBurst (snd (snd (get p gatewayID now now')))"
| reach_unset: "reachable RequestBurst p \<Longrightarrow> reachable RequestBurst (unset p gatewayID)"

text \<open>
  No two identifiers share a cell, and every cell in use lies below the next address to
  allocate.
\<close>

definition no_alias :: "Public \<Rightarrow> bool" where
  "no_alias p = (inj_on (info p) (dom (info p)) \<and> (\<forall>a \<in> ran (info p). a < nxt p))"

text \<open>
  A store with an expiry of one second that holds one entry, written at time 0.
\<close>

definition staleStore :: Public where
  "staleStore = WithExpire (set_info samplePublic ''gw1'' sampleGateway 0) 1000000000"




text \<open>
  The platform string as the specification words it: the brand and the model that are
  present and not empty, joined with a single space, the brand first.
\<close>

definition platform_of_spec :: "string option \<Rightarrow> string option \<Rightarrow> string" where
  "platform_of_spec brand model =
     Join (filter (\<lambda>s. s \<noteq> [])
             ((case brand of Some b \<Rightarrow> [b] | None \<Rightarrow> []) @
              (case model of Some m \<Rightarrow> [m] | None \<Rightarrow> [])))
          '' ''"

text \<open>
  Messages for the gateway \<open>gw1\<close>: a status message that carries a platform, one that
  carries nothing, and an uplink message without a location; and a gateway record whose
  brand is present and empty.
\<close>

definition sampleStatus :: StatusMessage where
  "sampleStatus =
     \<lparr>StatusMessage.GatewayID = ''gw1'',
      StatusMessage.Message =
        \<lparr>Status.Gps = None, Status.FrequencyPlan = [], Platform = ''X'', Status.Description = []\<rparr>\<rparr>"

definition blankStatus :: StatusMessage where
  "blankStatus =
     \<lparr>StatusMessage.GatewayID = ''gw1'',
      StatusMessage.Message =
        \<lparr>Status.Gps = None, Status.FrequencyPlan = [], Platform = [], Status.Description = []\<rparr>\<rparr>"

definition sampleUplink :: UplinkMessage where
  "sampleUplink =
     \<lparr>UplinkMessage.GatewayID = ''gw1'',
      UplinkMessage.Message = \<lparr>Trace = [], GatewayMetadata = \<lparr>RxMetadata.Gps = None\<rparr>\<rparr>\<rparr>"

definition emptyBrandGateway :: Gateway where
  "emptyBrandGateway =
     \<lparr>AntennaLocation = None, Gateway.FrequencyPlan = [],
      Attributes = \<lparr>Brand = Some [], Model = Some ''iBTS'', GatewayAttributes.Description = None\<rparr>\<rparr>"

section \<open>Reading the store\<close>

lemma entry_alloc_same: "entry (alloc p x i) x = Some i"
  by (simp add: entry_def alloc_def)

lemma get_result:
  "fst (get p x t t') =
     (case entry p x of None \<Rightarrow> (zeroGateway, None) | Some i \<Rightarrow> (gateway i, err i))"
  by (simp add: get_def entry_def Let_def split: option.splits)

lemma entry_setErr_same:
  "entry (setErr p x e now) x =
     Some (case entry p x of
             None \<Rightarrow> \<lparr>lastUpdated = now, err = e, gateway = zeroGateway\<rparr>
           | Some i \<Rightarrow> i\<lparr>lastUpdated := now, err := e\<rparr>)"
  by (simp add: setErr_def entry_def alloc_def split: option.splits)

lemma entry_samplePublic: "entry samplePublic x = None"
  by (simp add: entry_def samplePublic_def)

section \<open>A failed fetch keeps the last good record\<close>

text \<open>
  Claim C1. When \<open>setErr\<close> runs while the store holds an entry for the identifier, the
  entry keeps its record and gets the new time and the new error, and a \<open>get\<close> that
  follows returns the old record with the new error. When the store holds no entry, the
  new entry has the zero record and the error, and \<open>get\<close> returns those. A fetch whose
  lookup fails ends in exactly this \<open>setErr\<close>.
\<close>

theorem setErr_keeps_record:
  "(entry p x = Some i \<longrightarrow>
      entry (setErr p x e now) x = Some (i\<lparr>lastUpdated := now, err := e\<rparr>) \<and>
      fst (get (setErr p x e now) x t t') = (gateway i, e)) \<and>
   (entry p x = None \<longrightarrow>
      entry (setErr p x e now) x = Some \<lparr>lastUpdated = now, err = e, gateway = zeroGateway\<rparr> \<and>
      fst (get (setErr p x e now) x t t') = (zeroGateway, e)) \<and>
   fetch_complete p x (g, Some f) now = (Some f, setErr p x (Some f) now)"
  by (simp add: get_result entry_setErr_same fetch_complete_def)

theorem setErr_keeps_record_witness:
  "fst (get (setErr (set_info samplePublic ''gw1'' sampleGateway 5) ''gw1'' (Some ''timeout'') 9)
          ''gw1'' 10 10) = (sampleGateway, Some ''timeout'') \<and>
   fst (get (setErr samplePublic ''gw1'' (Some ''timeout'') 9) ''gw1'' 10 10)
     = (zeroGateway, Some ''timeout'')"
  using setErr_keeps_record [of "set_info samplePublic ''gw1'' sampleGateway 5" "''gw1''"
      "\<lparr>lastUpdated = 5, err = None, gateway = sampleGateway\<rparr>" "Some ''timeout''" 9 10 10]
    setErr_keeps_record [of samplePublic "''gw1''" _ "Some ''timeout''" 9 10 10]
  by (simp add: set_info_def entry_alloc_same entry_samplePublic)

lemma NewPublic_sample: "NewPublic 2 = Inr samplePublic"
  by (simp add: NewPublic_def make_chan_def chan_send_def samplePublic_def numeral_2_eq_2)

section \<open>A successful fetch replaces the entry\<close>










section \<open>Identifiers without an entry\<close>

text \<open>
  Claim C4. For an identifier without an entry, \<open>get\<close> returns the zero record and no
  error, starts nothing and leaves the state as it is. That is so in the state
  \<open>NewPublic\<close> returns, where nothing was ever fetched, and right after \<open>unset\<close>.
\<close>

theorem get_absent:
  "(info p x = None \<longrightarrow> get p x t t' = ((zeroGateway, None), [], p)) \<and>
   get (unset p x) x t t' = ((zeroGateway, None), [], unset p x) \<and>
   (NewPublic b = Inr p0 \<longrightarrow> get p0 x t t' = ((zeroGateway, None), [], p0))"
  by (auto simp add: get_def unset_def NewPublic_def split: sum.splits)

theorem get_absent_witness:
  "get samplePublic ''gw1'' 8 8 = ((zeroGateway, None), [], samplePublic) \<and>
   get (unset (set_info samplePublic ''gw1'' sampleGateway 5) ''gw1'') ''gw1'' 8 8
     = ((zeroGateway, None), [], unset (set_info samplePublic ''gw1'' sampleGateway 5) ''gw1'')"
  using get_absent [of samplePublic "''gw1''" 8 8 2 samplePublic]
    get_absent [of "set_info samplePublic ''gw1'' sampleGateway 5" "''gw1''" 8 8 2 samplePublic]
  by (simp add: NewPublic_sample)

section \<open>A fetch that ends after the eviction\<close>

text \<open>
  Claim C9. Both \<open>set\<close> and \<open>setErr\<close> leave an entry for the identifier in every state.
  So when \<open>unset\<close> runs after a fetch has taken its permit and before its lookup answers,
  the entry is gone in between and is there again once the fetch completes: with the
  fetched record, or with the zero record and the error.
\<close>

theorem complete_reinserts:
  "entry (set_info q x g now) x = Some \<lparr>lastUpdated = now, err = None, gateway = g\<rparr> \<and>
   entry (setErr q x e now) x \<noteq> None \<and>
   entry (unset (snd (fetch_acquire p)) x) x = None \<and>
   entry (snd (fetch_complete (unset (snd (fetch_acquire p)) x) x r now)) x =
     Some (case r of
             (g', Some e') \<Rightarrow> \<lparr>lastUpdated = now, err = Some e', gateway = zeroGateway\<rparr>
           | (g', None) \<Rightarrow> \<lparr>lastUpdated = now, err = None, gateway = g'\<rparr>)"
proof -
  have a: "entry (unset s x) x = None" for s
    by (simp add: entry_def unset_def)
  show ?thesis
    by (simp add: a entry_setErr_same set_info_def entry_alloc_same fetch_complete_def
        split: prod.splits option.splits)
qed

theorem complete_reinserts_witness:
  "entry (unset (snd (fetch_acquire (set_info samplePublic ''gw1'' sampleGateway 5))) ''gw1'') ''gw1''
     = None \<and>
   entry (snd (fetch_complete
            (unset (snd (fetch_acquire (set_info samplePublic ''gw1'' sampleGateway 5))) ''gw1'')
            ''gw1'' (sampleGateway, None) 9)) ''gw1''
     = Some \<lparr>lastUpdated = 9, err = None, gateway = sampleGateway\<rparr>"
  using complete_reinserts [of _ "''gw1''" _ 9 _ "set_info samplePublic ''gw1'' sampleGateway 5"
      "(sampleGateway, None)"]
  by simp

section \<open>Operations on one identifier leave the others alone\<close>

lemma no_alias_alloc:
  assumes "no_alias p"
  shows "no_alias (alloc p x i)"
proof -
  have inj: "inj_on (info p) (dom (info p))"
    using assms by (simp add: no_alias_def)
  have bound: "a < nxt p" if "info p y = Some a" for y a
    using assms that by (auto simp add: no_alias_def ran_def)
  have fresh: "info p y \<noteq> Some (nxt p)" for y
    using bound [of y "nxt p"] by auto
  let ?m = "(info p)(x \<mapsto> nxt p)"
  have "inj_on ?m (dom ?m)"
  proof (rule inj_onI)
    fix y z
    assume y: "y \<in> dom ?m" and z: "z \<in> dom ?m" and eq: "?m y = ?m z"
    show "y = z"
    proof (cases "y = x")
      case True
      then show ?thesis using eq fresh [of z] by (cases "z = x") auto
    next
      case False
      then have yx: "?m y = info p y" by simp
      show ?thesis
      proof (cases "z = x")
        case True
        then show ?thesis using eq yx fresh [of y] by auto
      next
        case zx: False
        then have "info p y = info p z" using eq yx by simp
        moreover have "y \<in> dom (info p)" "z \<in> dom (info p)"
          using y z False zx by auto
        ultimately show ?thesis using inj by (simp add: inj_on_def)
      qed
    qed
  qed
  moreover have "\<forall>a \<in> ran ?m. a < Suc (nxt p)"
  proof
    fix a assume "a \<in> ran ?m"
    then obtain y where "?m y = Some a" by (auto simp add: ran_def)
    then show "a < Suc (nxt p)"
      using bound [of y a] by (cases "y = x") auto
  qed
  ultimately show ?thesis by (simp add: no_alias_def alloc_def)
qed

lemma no_alias_unset:
  assumes "no_alias p"
  shows "no_alias (unset p x)"
proof -
  let ?m = "(info p)(x := None)"
  have sub: "info p y = Some a" if "?m y = Some a" for y a
    using that by (cases "y = x") auto
  have "inj_on ?m (dom ?m)"
  proof (rule inj_onI)
    fix y z
    assume y: "y \<in> dom ?m" and z: "z \<in> dom ?m" and eq: "?m y = ?m z"
    from y obtain a where a: "?m y = Some a" by auto
    with eq have b: "?m z = Some a" by simp
    have "info p y = info p z" using sub [OF a] sub [OF b] by simp
    moreover have "y \<in> dom (info p)" "z \<in> dom (info p)"
      using sub [OF a] sub [OF b] by auto
    ultimately show "y = z" using assms by (simp add: no_alias_def inj_on_def)
  qed
  moreover have "\<forall>a \<in> ran ?m. a < nxt p"
  proof
    fix a assume "a \<in> ran ?m"
    then obtain y where "?m y = Some a" by (auto simp add: ran_def)
    then have "a \<in> ran (info p)" using sub by (auto simp add: ran_def)
    then show "a < nxt p" using assms by (simp add: no_alias_def)
  qed
  ultimately show ?thesis by (simp add: no_alias_def unset_def)
qed

lemma alloc_other:
  assumes "no_alias p" "y \<noteq> x"
  shows "entry (alloc p x i) y = entry p y"
proof (cases "info p y")
  case None
  then show ?thesis using assms(2) by (simp add: entry_def alloc_def)
next
  case (Some a)
  then have "a \<in> ran (info p)" by (auto simp add: ran_def)
  then have "a \<noteq> nxt p" using assms(1) by (auto simp add: no_alias_def)
  then show ?thesis using Some assms(2) by (simp add: entry_def alloc_def)
qed

lemma no_alias_frame: "no_alias p \<Longrightarrow> info q = info p \<Longrightarrow> nxt q = nxt p \<Longrightarrow> no_alias q"
  by (simp add: no_alias_def)

lemma no_alias_setErr:
  assumes "no_alias p"
  shows "no_alias (setErr p x e now)"
proof (cases "info p x")
  case None
  then show ?thesis using assms by (simp add: setErr_def no_alias_alloc)
next
  case (Some a)
  then show ?thesis using assms by (simp add: setErr_def no_alias_def)
qed

lemma no_alias_set_info: "no_alias p \<Longrightarrow> no_alias (set_info p x g now)"
  by (simp add: set_info_def no_alias_alloc)

lemma no_alias_get: "no_alias p \<Longrightarrow> no_alias (snd (snd (get p x t t')))"
  by (rule no_alias_frame [of p]) (simp_all add: get_def Let_def split: option.splits)

lemma no_alias_NewPublic: "NewPublic b = Inr p \<Longrightarrow> no_alias p"
  by (auto simp add: NewPublic_def no_alias_def split: sum.splits)

lemma reachable_no_alias: "reachable b p \<Longrightarrow> no_alias p"
proof (induction rule: reachable.induct)
  case (reach_new p)
  then show ?case by (rule no_alias_NewPublic)
next
  case (reach_expire p d)
  from reach_expire.IH show ?case
    by (rule no_alias_frame) (simp_all add: WithExpire_def)
next
  case (reach_tick p)
  from reach_tick.IH show ?case
    by (rule no_alias_frame) (simp_all add: tick_def)
next
  case (reach_acquire p)
  from reach_acquire.IH show ?case
    by (rule no_alias_frame) (simp_all add: fetch_acquire_def split: prod.splits)
next
  case (reach_complete p gatewayID r now)
  from reach_complete.IH show ?case
    by (cases r) (simp add: fetch_complete_def no_alias_setErr no_alias_set_info split: option.splits)
next
  case (reach_logged p gatewayID e)
  from reach_logged.IH show ?case
    by (rule no_alias_frame) (simp_all add: connect_logged_def split: option.splits)
next
  case (reach_get p gatewayID now now')
  from reach_get.IH show ?case by (rule no_alias_get)
next
  case (reach_unset p gatewayID)
  from reach_unset.IH show ?case by (rule no_alias_unset)
qed

lemma heap_upd_other:
  assumes "no_alias p" "y \<noteq> x" "info p x = Some a"
  shows "entry (p\<lparr>heap := (heap p)(a := i)\<rparr>) y = entry p y"
proof (cases "info p y")
  case None
  then show ?thesis by (simp add: entry_def)
next
  case (Some b)
  have "b \<noteq> a"
  proof
    assume "b = a"
    with Some assms(3) have "info p y = info p x" by simp
    moreover have "x \<in> dom (info p)" "y \<in> dom (info p)" using Some assms(3) by auto
    ultimately have "y = x" using assms(1) by (simp add: no_alias_def inj_on_def)
    with assms(2) show False by simp
  qed
  with Some show ?thesis by (simp add: entry_def)
qed

text \<open>
  Claim C10. In every state the middleware can reach, \<open>set\<close>, \<open>setErr\<close>, \<open>get\<close> and
  \<open>unset\<close> on one identifier leave the entry of every other identifier as it was: its
  record, its error and its time, or its absence. (The map holds pointers; this holds
  because no two identifiers ever share a cell.)
\<close>

theorem other_entries_unchanged:
  assumes "reachable b p" "y \<noteq> x"
  shows "entry (set_info p x g now) y = entry p y \<and>
         entry (setErr p x e now) y = entry p y \<and>
         entry (snd (snd (get p x t t'))) y = entry p y \<and>
         entry (unset p x) y = entry p y"
proof -
  have na: "no_alias p" using assms(1) by (rule reachable_no_alias)
  have 1: "entry (set_info p x g now) y = entry p y"
    using na assms(2) by (simp add: set_info_def alloc_other)
  have 2: "entry (setErr p x e now) y = entry p y"
    using na assms(2) by (cases "info p x") (simp_all add: setErr_def alloc_other heap_upd_other)
  have 3: "entry (snd (snd (get p x t t'))) y = entry p y"
    using na assms(2) by (cases "info p x") (simp_all add: get_def Let_def heap_upd_other)
  have 4: "entry (unset p x) y = entry p y"
    using assms(2) by (simp add: entry_def unset_def)
  from 1 2 3 4 show ?thesis by simp
qed

theorem other_entries_unchanged_witness:
  "entry (setErr (set_info (set_info samplePublic ''gw1'' sampleGateway 5) ''gw2'' zeroGateway 6)
            ''gw2'' (Some ''timeout'') 9) ''gw1''
     = Some \<lparr>lastUpdated = 5, err = None, gateway = sampleGateway\<rparr>"
proof -
  let ?p1 = "snd (fetch_complete samplePublic ''gw1'' (sampleGateway, None) 5)"
  let ?p2 = "snd (fetch_complete ?p1 ''gw2'' (zeroGateway, None) 6)"
  have "reachable 2 samplePublic"
    by (rule reach_new) (rule NewPublic_sample)
  then have "reachable 2 ?p1" by (rule reach_complete)
  then have r: "reachable 2 ?p2" by (rule reach_complete)
  have ne: "''gw1'' \<noteq> ''gw2''" by simp
  have "entry (setErr ?p2 ''gw2'' (Some ''timeout'') 9) ''gw1'' = entry ?p2 ''gw1''"
    using other_entries_unchanged [OF r ne] by simp
  then show ?thesis
    by (simp add: fetch_complete_def set_info_def alloc_def entry_def)
qed

section \<open>Refreshing a stale entry on read\<close>

lemma get_tasks:
  "fst (snd (get p x now now')) =
     (case entry p x of
        None \<Rightarrow> []
      | Some i \<Rightarrow> if expire p \<noteq> 0 \<and> Since now (lastUpdated i) > expire p then [Fetch x] else [])"
  by (simp add: get_def entry_def Let_def split: option.splits)

lemma get_entry:
  "entry (snd (snd (get p x now now'))) x =
     (case entry p x of
        None \<Rightarrow> None
      | Some i \<Rightarrow> Some (if expire p \<noteq> 0 \<and> Since now (lastUpdated i) > expire p
                       then i\<lparr>lastUpdated := now'\<rparr> else i))"
  by (simp add: get_def entry_def Let_def split: option.splits)

lemma get_expire: "expire (snd (snd (get p x now now'))) = expire p"
  by (simp add: get_def Let_def split: option.splits)

lemma get_no_expiry: "expire p = 0 \<Longrightarrow> get p y now now' = (fst (get p y now now'), [], p)"
  by (simp add: get_def split: option.splits)

text \<open>
  Claim C2, as the code has it. On an entry, \<open>get\<close> starts a fetch exactly when the expiry
  is not zero and the time since the entry's \<open>lastUpdated\<close> exceeds it; it then sets
  \<open>lastUpdated\<close> to the current time, and in both cases returns the stored record and
  error. A second \<open>get\<close> on the state the first one left, no fetch having completed, starts
  no fetch as long as the time since the new \<open>lastUpdated\<close> does not exceed the expiry.
  With an expiry of zero, \<open>get\<close> starts nothing and leaves the state as it is.
\<close>

theorem get_refresh:
  "(entry p x = Some i \<longrightarrow>
      fst (get p x now now') = (gateway i, err i) \<and>
      fst (snd (get p x now now')) =
        (if expire p \<noteq> 0 \<and> Since now (lastUpdated i) > expire p then [Fetch x] else []) \<and>
      entry (snd (snd (get p x now now'))) x =
        Some (if expire p \<noteq> 0 \<and> Since now (lastUpdated i) > expire p
              then i\<lparr>lastUpdated := now'\<rparr> else i) \<and>
      (expire p \<noteq> 0 \<and> Since now (lastUpdated i) > expire p \<and> Since t now' \<le> expire p \<longrightarrow>
         fst (get (snd (snd (get p x now now'))) x t t') = (gateway i, err i) \<and>
         fst (snd (get (snd (snd (get p x now now'))) x t t')) = [])) \<and>
   (expire p = 0 \<longrightarrow> fst (snd (get p y now now')) = [] \<and> snd (snd (get p y now now')) = p)"
proof -
  have "fst (snd (get p y now now')) = [] \<and> snd (snd (get p y now now')) = p" if "expire p = 0"
    using get_no_expiry [OF that, of y now now'] by (metis fst_conv snd_conv)
  then show ?thesis
    by (simp add: get_result get_tasks get_entry get_expire)
qed

theorem get_refresh_witness:
  "fst (snd (get staleStore ''gw1'' 2000000000 2000000001)) = [Fetch ''gw1''] \<and>
   fst (get staleStore ''gw1'' 2000000000 2000000001) = (sampleGateway, None) \<and>
   fst (snd (get (snd (snd (get staleStore ''gw1'' 2000000000 2000000001))) ''gw1'' 2500000000 2500000000)) = [] \<and>
   fst (snd (get samplePublic ''gw1'' 2000000000 2000000001)) = []"
  using get_refresh [of staleStore "''gw1''" "\<lparr>lastUpdated = 0, err = None, gateway = sampleGateway\<rparr>"
      2000000000 2000000001 2500000000 2500000000]
    get_refresh [of samplePublic "''gw1''" _ 2000000000 2000000001 _ _ "''gw1''"]
  by (simp add: staleStore_def WithExpire_def set_info_def alloc_def entry_def samplePublic_def
      Since_def Sub_def maxDuration_def minDuration_def)

text \<open>
  The claim as the specification words it, that no second \<open>get\<close> before the refresh
  completes starts a second fetch, fails: with an expiry of one second, a \<open>get\<close> two
  seconds after the one that started the refresh, the refresh still running, starts
  another.
\<close>

theorem get_refresh_twice_counterexample:
  "fst (snd (get staleStore ''gw1'' 2000000000 2000000000)) = [Fetch ''gw1''] \<and>
   fst (snd (get (snd (snd (get staleStore ''gw1'' 2000000000 2000000000))) ''gw1''
               4000000000 4000000000)) = [Fetch ''gw1'']"
  by (simp add: get_def staleStore_def WithExpire_def set_info_def alloc_def samplePublic_def
      Since_def Sub_def maxDuration_def minDuration_def Let_def)

section \<open>The rate limiter as a token bucket\<close>

lemma fill_buffer:
  "k + n \<le> m \<Longrightarrow>
   fill n \<lparr>qcount = k, dataqsiz = m, recvq = 0\<rparr> = Inr \<lparr>qcount = k + n, dataqsiz = m, recvq = 0\<rparr>"
  by (induction n arbitrary: k) (simp_all add: chan_send_def)


lemma NewPublic_total: "0 \<le> B \<Longrightarrow> \<exists>p. NewPublic B = Inr p"
  using fill_buffer [of 0 "nat B" "nat B"] by (simp add: NewPublic_def make_chan_def)














section \<open>The hooks only fill what a message lacks\<close>

lemma get_set_info_sample:
  "get (set_info samplePublic ''gw1'' g 5) ''gw1'' 8 8
     = ((g, None), [], set_info samplePublic ''gw1'' g 5)"
  by (simp add: get_def set_info_def alloc_def samplePublic_def)

lemma uplink_gps_kept:
  "RxMetadata.Gps (GatewayMetadata (UplinkMessage.Message um)) \<noteq> None \<Longrightarrow>
   GatewayMetadata (UplinkMessage.Message (fst (snd (HandleUplink f32 i32 p um now now'))))
     = GatewayMetadata (UplinkMessage.Message um)"
  by (cases "get p (UplinkMessage.GatewayID um) now now'")
     (auto simp add: HandleUplink_def Let_def split: option.splits bool.splits)

lemma uplink_id_kept:
  "UplinkMessage.GatewayID (fst (snd (HandleUplink f32 i32 p um now now'))) = UplinkMessage.GatewayID um"
  by (cases "get p (UplinkMessage.GatewayID um) now now'")
     (auto simp add: HandleUplink_def Let_def split: option.splits bool.splits)

lemma status_id_kept:
  "StatusMessage.GatewayID (fst (snd (HandleStatus f32 i32 p sm now now'))) = StatusMessage.GatewayID sm"
  by (cases "get p (StatusMessage.GatewayID sm) now now'")
     (auto simp add: HandleStatus_def Let_def split: option.splits bool.splits)

lemma status_gps_kept:
  "Status.Gps (StatusMessage.Message sm) \<noteq> None \<Longrightarrow>
   Status.Gps (StatusMessage.Message (fst (snd (HandleStatus f32 i32 p sm now now'))))
     = Status.Gps (StatusMessage.Message sm)"
  by (cases "get p (StatusMessage.GatewayID sm) now now'")
     (auto simp add: HandleStatus_def Let_def split: option.splits bool.splits)

lemma status_plan_kept:
  "Status.FrequencyPlan (StatusMessage.Message sm) \<noteq> [] \<Longrightarrow>
   Status.FrequencyPlan (StatusMessage.Message (fst (snd (HandleStatus f32 i32 p sm now now'))))
     = Status.FrequencyPlan (StatusMessage.Message sm)"
  by (cases "get p (StatusMessage.GatewayID sm) now now'")
     (auto simp add: HandleStatus_def Let_def split: option.splits bool.splits)

lemma platform_kept:
  "Platform (StatusMessage.Message sm) \<noteq> [] \<Longrightarrow>
   Platform (StatusMessage.Message (fst (snd (HandleStatus f32 i32 p sm now now'))))
     = Platform (StatusMessage.Message sm)"
  by (cases "get p (StatusMessage.GatewayID sm) now now'")
     (auto simp add: HandleStatus_def Let_def split: option.splits bool.splits)

lemma status_description_kept:
  "Status.Description (StatusMessage.Message sm) \<noteq> [] \<Longrightarrow>
   Status.Description (StatusMessage.Message (fst (snd (HandleStatus f32 i32 p sm now now'))))
     = Status.Description (StatusMessage.Message sm)"
  by (cases "get p (StatusMessage.GatewayID sm) now now'")
     (auto simp add: HandleStatus_def Let_def split: option.splits bool.splits)


text \<open>
  Claim C6. Both enriching hooks leave the gateway identifier of the message alone.
  \<open>HandleUplink\<close> leaves the gateway metadata as it is when it carries a location.
  \<open>HandleStatus\<close> leaves the location when there is one, and the frequency plan, the
  platform and the description when they are not empty: a status message whose platform
  is \<open>X\<close> keeps it, whatever the cache holds.
\<close>

theorem enrichment_additive:
  assumes "um' = fst (snd (HandleUplink f32 i32 p um now now'))"
    and "sm' = fst (snd (HandleStatus f32 i32 p sm now now'))"
  shows "UplinkMessage.GatewayID um' = UplinkMessage.GatewayID um \<and>
         (RxMetadata.Gps (GatewayMetadata (UplinkMessage.Message um)) \<noteq> None \<longrightarrow>
            GatewayMetadata (UplinkMessage.Message um') = GatewayMetadata (UplinkMessage.Message um)) \<and>
         StatusMessage.GatewayID sm' = StatusMessage.GatewayID sm \<and>
         (Status.Gps (StatusMessage.Message sm) \<noteq> None \<longrightarrow>
            Status.Gps (StatusMessage.Message sm') = Status.Gps (StatusMessage.Message sm)) \<and>
         (Status.FrequencyPlan (StatusMessage.Message sm) \<noteq> [] \<longrightarrow>
            Status.FrequencyPlan (StatusMessage.Message sm')
              = Status.FrequencyPlan (StatusMessage.Message sm)) \<and>
         (Platform (StatusMessage.Message sm) \<noteq> [] \<longrightarrow>
            Platform (StatusMessage.Message sm') = Platform (StatusMessage.Message sm)) \<and>
         (Status.Description (StatusMessage.Message sm) \<noteq> [] \<longrightarrow>
            Status.Description (StatusMessage.Message sm')
              = Status.Description (StatusMessage.Message sm))"
  unfolding assms
  by (simp add: uplink_id_kept uplink_gps_kept status_id_kept status_gps_kept status_plan_kept
      platform_kept status_description_kept)

theorem enrichment_additive_witness:
  "Platform (StatusMessage.Message
       (fst (snd (HandleStatus ucast ucast (set_info samplePublic ''gw1'' sampleGateway 5)
                    sampleStatus 8 8)))) = ''X''"
  using enrichment_additive [OF refl refl, of ucast ucast
      "set_info samplePublic ''gw1'' sampleGateway 5" sampleUplink 8 8 sampleStatus]
  by (simp add: sampleStatus_def)

section \<open>The platform string\<close>

lemma platform_built:
  assumes "Platform (StatusMessage.Message sm) = []"
  shows "Platform (StatusMessage.Message (fst (snd (HandleStatus f32 i32 p sm now now')))) =
           (case (Brand (Attributes (fst (fst (get p (StatusMessage.GatewayID sm) now now')))),
                  Model (Attributes (fst (fst (get p (StatusMessage.GatewayID sm) now now'))))) of
              (None, None) \<Rightarrow> []
            | (Some b, None) \<Rightarrow> b
            | (None, Some m) \<Rightarrow> m
            | (Some b, Some m) \<Rightarrow> b @ '' '' @ m)"
  using assms
  by (cases "get p (StatusMessage.GatewayID sm) now now'")
     (auto simp add: HandleStatus_def Let_def split: option.splits bool.splits)

lemma platform_of_spec_cases:
  "brand \<noteq> Some [] \<Longrightarrow> model \<noteq> Some [] \<Longrightarrow>
   platform_of_spec brand model =
     (case (brand, model) of
        (None, None) \<Rightarrow> []
      | (Some b, None) \<Rightarrow> b
      | (None, Some m) \<Rightarrow> m
      | (Some b, Some m) \<Rightarrow> b @ '' '' @ m)"
  by (auto simp add: platform_of_spec_def split: option.splits)

text \<open>
  Claim C7, as the code has it. For a status message whose platform is empty,
  \<open>HandleStatus\<close> writes the brand and the model of the cached record that are present
  (not nil), joined with a single space, the brand first; an absent one adds nothing and
  no space. When neither is present and empty, that is the string the specification
  describes.
\<close>

theorem status_platform:
  assumes "Platform (StatusMessage.Message sm) = []"
    and "gtw = fst (fst (get p (StatusMessage.GatewayID sm) now now'))"
  shows "Platform (StatusMessage.Message (fst (snd (HandleStatus f32 i32 p sm now now')))) =
           (case (Brand (Attributes gtw), Model (Attributes gtw)) of
              (None, None) \<Rightarrow> []
            | (Some b, None) \<Rightarrow> b
            | (None, Some m) \<Rightarrow> m
            | (Some b, Some m) \<Rightarrow> b @ '' '' @ m) \<and>
         (Brand (Attributes gtw) \<noteq> Some [] \<and> Model (Attributes gtw) \<noteq> Some [] \<longrightarrow>
            Platform (StatusMessage.Message (fst (snd (HandleStatus f32 i32 p sm now now')))) =
              platform_of_spec (Brand (Attributes gtw)) (Model (Attributes gtw)))"
  using platform_built [OF assms(1), of f32 i32 p now now']
  by (simp add: assms(2) platform_of_spec_cases)


theorem status_platform_witness:
  "Platform (StatusMessage.Message
       (fst (snd (HandleStatus ucast ucast (set_info samplePublic ''gw1'' sampleGateway 5)
                    blankStatus 8 8)))) = ''Kerlink iBTS''"
  using status_platform [of blankStatus sampleGateway "set_info samplePublic ''gw1'' sampleGateway 5"
      8 8 ucast ucast]
  by (simp add: blankStatus_def get_set_info_sample sampleGateway_def)

text \<open>
  The claim as the specification words it fails for an attribute that is present and
  empty: the code tests the pointers against nil, not the strings against the empty
  string. With an empty brand and the model \<open>iBTS\<close> the platform gets a leading space.
\<close>

theorem status_platform_counterexample:
  "Platform (StatusMessage.Message
       (fst (snd (HandleStatus ucast ucast (set_info samplePublic ''gw1'' emptyBrandGateway 5)
                    blankStatus 8 8)))) = '' iBTS'' \<and>
   platform_of_spec (Brand (Attributes emptyBrandGateway)) (Model (Attributes emptyBrandGateway))
     = ''iBTS''"
  by (simp add: HandleStatus_def blankStatus_def get_set_info_sample emptyBrandGateway_def
      platform_of_spec_def Let_def)

section \<open>No hook returns an error\<close>






end
